theory Spec2Isabelle
  imports Main "HOL-Library.AList" "HOL-Library.Char_ord" "HOL-Library.List_Lexorder"
begin

section \<open>Values exchanged with the game server\<close>

text \<open>
  The client decodes every server document with \<^verbatim>\<open>json.loads\<close>. A decoded value is
  \<^verbatim>\<open>None\<close>, a \<^verbatim>\<open>bool\<close>, an \<^verbatim>\<open>int\<close>, a \<^verbatim>\<open>str\<close>, a \<^verbatim>\<open>list\<close> or a \<^verbatim>\<open>dict\<close> with string
  keys. Python integers are unbounded, hence \<^typ>\<open>int\<close>. A \<^typ>\<open>char\<close> stands for one code
  point below 256, so \<^const>\<open>length\<close> is Python's \<^verbatim>\<open>len\<close> on such strings. Floating
  point numbers are outside the model.
\<close>

datatype json =
    JNull
  | JBool bool
  | JInt int
  | JStr string
  | JList "json list"
  | JObj "(string \<times> json) list"

datatype error = TypeError

text \<open>Python's truth value of a decoded document (\<^verbatim>\<open>if x:\<close>).\<close>

fun truthy :: "json \<Rightarrow> bool" where
  "truthy JNull = False"
| "truthy (JBool b) = b"
| "truthy (JInt i) = (i \<noteq> 0)"
| "truthy (JStr s) = (s \<noteq> [])"
| "truthy (JList xs) = (xs \<noteq> [])"
| "truthy (JObj kvs) = (kvs \<noteq> [])"

text \<open>\<^verbatim>\<open>d.get(key)\<close> with a truth test: an absent key gives \<^verbatim>\<open>None\<close>, which is false.\<close>

definition get_truthy :: "(string \<rightharpoonup> json) \<Rightarrow> string \<Rightarrow> bool" where
  "get_truthy d k = (case d k of None \<Rightarrow> False | Some v \<Rightarrow> truthy v)"

subsection \<open>Text rendering\<close>

text \<open>\<^verbatim>\<open>sep.join(parts)\<close>.\<close>

fun join :: "string \<Rightarrow> string list \<Rightarrow> string" where
  "join sep [] = []"
| "join sep [x] = x"
| "join sep (x # y # ys) = x @ sep @ join sep (y # ys)"

definition digit_char :: "nat \<Rightarrow> char" where
  "digit_char n = ''0123456789abcdef'' ! n"

fun digits10 :: "nat \<Rightarrow> string" where
  "digits10 n = (if n < 10 then [digit_char n] else digits10 (n div 10) @ [digit_char (n mod 10)])"

declare digits10.simps [simp del]

text \<open>\<^verbatim>\<open>str(i)\<close> for an integer, also what an f-string and \<^verbatim>\<open>json.dumps\<close> print for it.\<close>

definition str_int :: "int \<Rightarrow> string" where
  "str_int i = (if i < 0 then CHR ''-'' # digits10 (nat (- i)) else digits10 (nat i))"

definition hex2 :: "nat \<Rightarrow> string" where
  "hex2 n = [digit_char (n div 16), digit_char (n mod 16)]"

text \<open>
  \<^verbatim>\<open>json.dumps\<close> with the default \<^verbatim>\<open>ensure_ascii=True\<close>: backslash, double quote and the
  five short escapes, and \<^verbatim>\<open>\uXXXX\<close> for every other code point outside space..tilde.
\<close>

definition json_escape_char :: "char \<Rightarrow> string" where
  "json_escape_char c =
     (if c = CHR 0x5C then [CHR 0x5C, CHR 0x5C]
      else if c = CHR 0x22 then [CHR 0x5C, CHR 0x22]
      else if c = CHR 0x08 then [CHR 0x5C, CHR ''b'']
      else if c = CHR 0x0C then [CHR 0x5C, CHR ''f'']
      else if c = CHR 0x0A then [CHR 0x5C, CHR ''n'']
      else if c = CHR 0x0D then [CHR 0x5C, CHR ''r'']
      else if c = CHR 0x09 then [CHR 0x5C, CHR ''t'']
      else if (of_char c :: nat) < 32 \<or> 126 < (of_char c :: nat)
        then [CHR 0x5C, CHR ''u'', CHR ''0'', CHR ''0''] @ hex2 (of_char c)
      else [c])"

definition json_quote :: "string \<Rightarrow> string" where
  "json_quote s = CHR 0x22 # concat (map json_escape_char s) @ [CHR 0x22]"

text \<open>\<^verbatim>\<open>json.dumps(v, separators=(",", ":"))\<close>.\<close>

fun json_dumps :: "json \<Rightarrow> string" where
  "json_dumps JNull = ''null''"
| "json_dumps (JBool b) = (if b then ''true'' else ''false'')"
| "json_dumps (JInt i) = str_int i"
| "json_dumps (JStr s) = json_quote s"
| "json_dumps (JList xs) = ''['' @ join '','' (map json_dumps xs) @ '']''"
| "json_dumps (JObj kvs) =
     ''{'' @ join '','' (map (\<lambda>kv. json_quote (fst kv) @ '':'' @ json_dumps (snd kv)) kvs) @ ''}''"

text \<open>
  \<^verbatim>\<open>repr\<close> of a string: double quotes when the text has a single quote and no double quote,
  single quotes otherwise; the chosen quote and the backslash are escaped, tab, newline and
  carriage return have short escapes, and a code point that is not printable is \<^verbatim>\<open>\xNN\<close>.
\<close>

definition py_printable :: "char \<Rightarrow> bool" where
  "py_printable c =
     (let n = (of_char c :: nat)
      in (32 \<le> n \<and> n < 127) \<or> (161 \<le> n \<and> n \<noteq> 173))"

definition repr_char :: "char \<Rightarrow> char \<Rightarrow> string" where
  "repr_char q c =
     (if c = q \<or> c = CHR 0x5C then [CHR 0x5C, c]
      else if c = CHR 0x09 then [CHR 0x5C, CHR ''t'']
      else if c = CHR 0x0A then [CHR 0x5C, CHR ''n'']
      else if c = CHR 0x0D then [CHR 0x5C, CHR ''r'']
      else if py_printable c then [c]
      else [CHR 0x5C, CHR ''x''] @ hex2 (of_char c))"

definition repr_str :: "string \<Rightarrow> string" where
  "repr_str s =
     (let q = (if CHR 0x27 \<in> set s \<and> CHR 0x22 \<notin> set s then CHR 0x22 else CHR 0x27)
      in q # concat (map (repr_char q) s) @ [q])"

text \<open>\<^verbatim>\<open>repr(v)\<close>, which a list or a dict applies to its elements.\<close>

fun py_repr :: "json \<Rightarrow> string" where
  "py_repr JNull = ''None''"
| "py_repr (JBool b) = (if b then ''True'' else ''False'')"
| "py_repr (JInt i) = str_int i"
| "py_repr (JStr s) = repr_str s"
| "py_repr (JList xs) = ''['' @ join '', '' (map py_repr xs) @ '']''"
| "py_repr (JObj kvs) =
     ''{'' @ join '', '' (map (\<lambda>kv. repr_str (fst kv) @ '': '' @ py_repr (snd kv)) kvs) @ ''}''"

text \<open>\<^verbatim>\<open>str(v)\<close>, what an f-string prints for \<^verbatim>\<open>{v}\<close>: a string is printed as it is.\<close>

fun py_str :: "json \<Rightarrow> string" where
  "py_str (JStr s) = s"
| "py_str v = py_repr v"

text \<open>
  Everything printed is kept as the list of the \<^verbatim>\<open>print\<close> calls made, in order; each entry
  is the text of one call, without the newline that \<^verbatim>\<open>print\<close> appends.
\<close>

definition section_line :: "string \<Rightarrow> string" where
  "section_line title = CHR 0x0A # ''--- '' @ title @ '' ---''"

definition header_line :: "string \<Rightarrow> string" where
  "header_line title = CHR 0x0A # ''=== '' @ title @ '' ===''"

section \<open>History delta\<close>

text \<open>\<^verbatim>\<open>xs[i:]\<close>: a negative start counts from the end and is clipped at the front.\<close>

definition slice_from :: "'a list \<Rightarrow> int \<Rightarrow> 'a list" where
  "slice_from xs i =
     (if i < 0 then drop (nat (int (length xs) + i)) xs else drop (nat i) xs)"

text \<open>The line printed for one action record in \<^verbatim>\<open>_print_history\<close>.\<close>

definition history_line :: "json \<Rightarrow> string" where
  "history_line r =
     (case r of
        JList (color # action # rest) \<Rightarrow>
          (let val = (case rest of
                        v # _ \<Rightarrow> if v \<noteq> JNull then v else JStr []
                      | [] \<Rightarrow> JStr [])
           in if val \<noteq> JStr []
              then ''  '' @ py_str color @ '': '' @ py_str action @ '' '' @ json_dumps val
              else ''  '' @ py_str color @ '': '' @ py_str action)
      | _ \<Rightarrow> ''  '' @ py_str r)"

definition print_history :: "json list \<Rightarrow> int \<Rightarrow> string list" where
  "print_history records since =
     (let recent = slice_from records since
      in if recent = [] then []
         else section_line (''Recent Actions ('' @ str_int (int (length recent)) @ '' moves)'')
              # map history_line recent)"

section \<open>State extraction\<close>

text \<open>
  The full game-state document, read with \<^verbatim>\<open>state.get(key, default)\<close>: a field holds the
  value of its key, or the default (\<^verbatim>\<open>[]\<close>, \<^verbatim>\<open>{}\<close>) when the key is absent. The colors are
  strings (the code uses them as dictionary keys and prints them); the values of
  \<^verbatim>\<open>player_state\<close> and the action records are whatever the server sent.
\<close>

record game_state =
  colors :: "string list"
  player_state :: "string \<rightharpoonup> json"
  action_records :: "json list"

definition RESOURCES :: "string list" where
  "RESOURCES = [''DRIFTWOOD'', ''CORAL'', ''SHRIMP'', ''KELP'', ''PEARL'']"


text \<open>\<^verbatim>\<open>ps.get(key, default)\<close>.\<close>

definition dict_get :: "(string \<rightharpoonup> json) \<Rightarrow> string \<Rightarrow> json \<Rightarrow> json" where
  "dict_get d k dflt = (case d k of None \<Rightarrow> dflt | Some v \<Rightarrow> v)"

text \<open>
  The value of a document in integer arithmetic and in a comparison with an integer:
  \<^verbatim>\<open>True\<close> is 1 and \<^verbatim>\<open>False\<close> is 0; \<^verbatim>\<open>None\<close>, strings, lists and dicts raise \<^verbatim>\<open>TypeError\<close>.
\<close>

fun num_of :: "json \<Rightarrow> error + int" where
  "num_of (JInt i) = Inr i"
| "num_of (JBool b) = Inr (if b then 1 else 0)"
| "num_of v = Inl TypeError"



text \<open>The key prefix \<^verbatim>\<open>f"P{idx}_"\<close>.\<close>

definition prefix_of :: "int \<Rightarrow> string" where
  "prefix_of idx = ''P'' @ str_int idx @ ''_''"





text \<open>
  \<^verbatim>\<open>_all_player_resources\<close>: for the player at position \<open>i\<close>, the table of its five resource
  counts; a color listed twice keeps its first place and its last table.
\<close>

definition resource_table :: "(string \<rightharpoonup> json) \<Rightarrow> nat \<Rightarrow> (string \<times> json) list" where
  "resource_table ps i =
     map (\<lambda>r. (r, dict_get ps (prefix_of (int i) @ r @ ''_IN_HAND'') (JInt 0))) RESOURCES"

fun all_resources_from ::
  "(string \<rightharpoonup> json) \<Rightarrow> nat \<Rightarrow> string list \<Rightarrow> (string \<times> (string \<times> json) list) list
     \<Rightarrow> (string \<times> (string \<times> json) list) list" where
  "all_resources_from ps i [] result = result"
| "all_resources_from ps i (c # cs) result =
     all_resources_from ps (Suc i) cs (AList.update c (resource_table ps i) result)"

definition all_player_resources :: "game_state \<Rightarrow> (string \<times> (string \<times> json) list) list" where
  "all_player_resources state = all_resources_from (player_state state) 0 (colors state) []"

section \<open>Roll result\<close>

text \<open>
  The test \<^verbatim>\<open>isinstance(r, list) and len(r) >= 2 and r[1] == "ROLL_THE_SHELLS"\<close> of
  \<^verbatim>\<open>_print_roll_result\<close>, and the value \<^verbatim>\<open>r[2] if len(r) > 2 else None\<close> it reads.
\<close>

fun is_roll :: "json \<Rightarrow> bool" where
  "is_roll (JList (c # a # rest)) = (a = JStr ''ROLL_THE_SHELLS'')"
| "is_roll r = False"

fun third :: "json \<Rightarrow> json" where
  "third (JList (c # a # v # rest)) = v"
| "third r = JNull"

text \<open>The scan of \<^verbatim>\<open>reversed(records)\<close>, which stops at the first roll record it meets.\<close>

fun scan_roll :: "json list \<Rightarrow> json" where
  "scan_roll [] = JNull"
| "scan_roll (r # rs) = (if is_roll r then third r else scan_roll rs)"

text \<open>The line \<^verbatim>\<open>Rolled: ...\<close>; \<^verbatim>\<open>sum(roll_val)\<close> adds the two elements to 0.\<close>

definition roll_lines :: "json \<Rightarrow> error + string list" where
  "roll_lines roll_val =
     (if roll_val \<noteq> JNull then
        (case roll_val of
           JList [a, b] \<Rightarrow>
             (case num_of a of
                Inl e \<Rightarrow> Inl e
              | Inr x \<Rightarrow>
                  (case num_of b of
                     Inl e \<Rightarrow> Inl e
                   | Inr y \<Rightarrow>
                       Inr [''  Rolled: '' @ py_str a @ '' + '' @ py_str b @ '' = ''
                              @ str_int (0 + x + y)]))
         | _ \<Rightarrow> Inr [''  Rolled: '' @ py_str roll_val])
      else Inr [])"

text \<open>The inner loop over the resource kinds: the signed differences that are not zero.\<close>

fun gains_of ::
  "(string \<times> json) list \<Rightarrow> (string \<times> json) list \<Rightarrow> string list \<Rightarrow> string list
     \<Rightarrow> error + string list" where
  "gains_of post pre [] gains = Inr gains"
| "gains_of post pre (res # rs) gains =
     (case num_of (case map_of post res of None \<Rightarrow> JInt 0 | Some v \<Rightarrow> v) of
        Inl e \<Rightarrow> Inl e
      | Inr x \<Rightarrow>
          (case num_of (case map_of pre res of None \<Rightarrow> JInt 0 | Some v \<Rightarrow> v) of
             Inl e \<Rightarrow> Inl e
           | Inr y \<Rightarrow>
               (let diff = x - y
                in if diff > 0 then gains_of post pre rs (gains @ [''+'' @ str_int diff @ '' '' @ res])
                   else if diff < 0 then gains_of post pre rs (gains @ [str_int diff @ '' '' @ res])
                   else gains_of post pre rs gains)))"

text \<open>The loop over the colors of the new state; the flag \<^verbatim>\<open>any_gains\<close> is threaded through.\<close>

fun distributed ::
  "(string \<times> (string \<times> json) list) list \<Rightarrow> (string \<times> (string \<times> json) list) list
     \<Rightarrow> string list \<Rightarrow> bool \<Rightarrow> string list \<Rightarrow> error + (string list \<times> bool)" where
  "distributed pre_resources post_resources [] any_gains out = Inr (out, any_gains)"
| "distributed pre_resources post_resources (c # cs) any_gains out =
     (let pre = (case map_of pre_resources c of None \<Rightarrow> [] | Some t \<Rightarrow> t);
          post = (case map_of post_resources c of None \<Rightarrow> [] | Some t \<Rightarrow> t)
      in case gains_of post pre RESOURCES [] of
           Inl e \<Rightarrow> Inl e
         | Inr gains \<Rightarrow>
             if gains \<noteq> []
             then distributed pre_resources post_resources cs True
                    (out @ [''  '' @ c @ '': '' @ join '', '' gains])
             else distributed pre_resources post_resources cs any_gains out)"

text \<open>
  \<^verbatim>\<open>_print_roll_result(state, pre_resources)\<close>. The second argument is \<^verbatim>\<open>None\<close> or the
  table that \<^verbatim>\<open>_all_player_resources\<close> gave before the roll; \<^verbatim>\<open>if pre_resources:\<close> is false
  for \<^verbatim>\<open>None\<close> and for the empty table. The result is the lines printed when the call
  returns, or the exception that it raises (the lines printed before it are not kept).
\<close>

definition print_roll_result ::
  "game_state \<Rightarrow> (string \<times> (string \<times> json) list) list option \<Rightarrow> error + string list" where
  "print_roll_result state pre_resources =
     (case roll_lines (scan_roll (rev (action_records state))) of
        Inl e \<Rightarrow> Inl e
      | Inr rolled \<Rightarrow>
          (case pre_resources of
             None \<Rightarrow> Inr rolled
           | Some pre \<Rightarrow>
               if pre = [] then Inr rolled
               else
                 (case distributed pre (all_player_resources state) (colors state) False [] of
                    Inl e \<Rightarrow> Inl e
                  | Inr (out, any_gains) \<Rightarrow>
                      Inr (rolled @ [section_line ''Resources Distributed''] @ out
                           @ (if \<not> any_gains then [''  No resources produced.''] else [])))))"

section \<open>Action grouping\<close>

definition ACTION_HINTS :: "(string \<times> string) list" where
  "ACTION_HINTS =
     [(''RELEASE_CATCH'',
        ''Discard cards. Run with no value to discard randomly:'' @ [CHR 0x0A]
          @ ''    CLI: clawtan act RELEASE_CATCH'' @ [CHR 0x0A]
          @ ''    Or pick specific cards (freqdeck=[DRIFTWOOD,CORAL,SHRIMP,KELP,PEARL]):''
          @ [CHR 0x0A] @ ''    CLI: clawtan act RELEASE_CATCH '' @ [CHR 0x27]
          @ ''[1,0,0,1,0]'' @ [CHR 0x27]),
      (''MOVE_THE_KRAKEN'',
        ''Move robber: value = [coordinate, victim_color_or_null, null].'' @ [CHR 0x0A]
          @ ''    CLI: clawtan act MOVE_THE_KRAKEN '' @ [CHR 0x27] @ ''[[0,1,-1],''
          @ [CHR 0x22] @ ''BLUE'' @ [CHR 0x22] @ '',null]'' @ [CHR 0x27]),
      (''OCEAN_TRADE'',
        ''Maritime trade: give 4 (or 3/2 with port) of one resource, receive 1.''
          @ [CHR 0x0A]
          @ ''    Value = list of resources: first N are given, last 1 is received.''
          @ [CHR 0x0A] @ ''    CLI: clawtan act OCEAN_TRADE '' @ [CHR 0x27] @ ''[''
          @ [CHR 0x22] @ ''KELP'' @ [CHR 0x22] @ '','' @ [CHR 0x22] @ ''KELP'' @ [CHR 0x22]
          @ '','' @ [CHR 0x22] @ ''KELP'' @ [CHR 0x22] @ '','' @ [CHR 0x22] @ ''KELP''
          @ [CHR 0x22] @ '','' @ [CHR 0x22] @ ''SHRIMP'' @ [CHR 0x22] @ '']'' @ [CHR 0x27]),
      (''PLAY_BOUNTIFUL_HARVEST'',
        ''Year of Plenty: pick 2 free resources.'' @ [CHR 0x0A]
          @ ''    CLI: clawtan act PLAY_BOUNTIFUL_HARVEST '' @ [CHR 0x27] @ ''[''
          @ [CHR 0x22] @ ''DRIFTWOOD'' @ [CHR 0x22] @ '','' @ [CHR 0x22] @ ''CORAL''
          @ [CHR 0x22] @ '']'' @ [CHR 0x27])]"

text \<open>\<^verbatim>\<open>_ACTION_HINTS.get(atype)\<close>: only a string can be equal to one of the four keys.\<close>

definition action_hint :: "json \<Rightarrow> string option" where
  "action_hint atype = (case atype of JStr s \<Rightarrow> map_of ACTION_HINTS s | _ \<Rightarrow> None)"

text \<open>
  Members of a \<^verbatim>\<open>set\<close> and keys of a \<^verbatim>\<open>dict\<close> must be hashable (a list or a dict raises
  \<^verbatim>\<open>TypeError\<close>) and are compared with \<^verbatim>\<open>==\<close>, under which \<^verbatim>\<open>True\<close> is 1 and \<^verbatim>\<open>False\<close> is 0.
\<close>

fun hashable :: "json \<Rightarrow> bool" where
  "hashable (JList xs) = False"
| "hashable (JObj kvs) = False"
| "hashable v = True"

fun key_norm :: "json \<Rightarrow> json" where
  "key_norm (JBool b) = JInt (if b then 1 else 0)"
| "key_norm v = v"

definition key_eq :: "json \<Rightarrow> json \<Rightarrow> bool" where
  "key_eq a b = (key_norm a = key_norm b)"

text \<open>\<^verbatim>\<open>s.add(x)\<close> on a set kept as the list of its members in order of arrival.\<close>

definition set_add :: "json \<Rightarrow> json list \<Rightarrow> json list" where
  "set_add x s = (if list_ex (key_eq x) s then s else s @ [x])"

text \<open>
  The test \<^verbatim>\<open>my_color and action_color and action_color != my_color\<close> on the first slot
  of an action.
\<close>

definition is_other :: "string option \<Rightarrow> json \<Rightarrow> bool" where
  "is_other my_color action_color =
     (case my_color of
        None \<Rightarrow> False
      | Some mc \<Rightarrow> mc \<noteq> [] \<and> truthy action_color \<and> action_color \<noteq> JStr mc)"

text \<open>The first loop of \<^verbatim>\<open>_print_actions\<close>: own actions, and the colors of the others.\<close>

fun split_actions ::
  "string option \<Rightarrow> json list \<Rightarrow> json list \<Rightarrow> json list \<Rightarrow> error + (json list \<times> json list)" where
  "split_actions my_color [] my_actions other_colors = Inr (my_actions, other_colors)"
| "split_actions my_color (a # todo) my_actions other_colors =
     (case a of
        JList (action_color # t # rest) \<Rightarrow>
          if is_other my_color action_color
          then (if hashable action_color
                then split_actions my_color todo my_actions (set_add action_color other_colors)
                else Inl TypeError)
          else split_actions my_color todo (my_actions @ [a]) other_colors
      | _ \<Rightarrow> split_actions my_color todo (my_actions @ [a]) other_colors)"

text \<open>
  \<^verbatim>\<open>grouped[atype].append(val)\<close> on a \<^verbatim>\<open>defaultdict(list)\<close>: a new key goes to the end, a
  known key keeps its place and its first spelling.
\<close>

fun group_add :: "json \<Rightarrow> json \<Rightarrow> (json \<times> json list) list \<Rightarrow> (json \<times> json list) list" where
  "group_add k v [] = [(k, [v])]"
| "group_add k v ((k', vs) # g) =
     (if key_eq k' k then (k', vs @ [v]) # g else (k', vs) # group_add k v g)"

text \<open>The action type \<^verbatim>\<open>a[1] if isinstance(a, list) and len(a) > 1 else str(a)\<close>.\<close>

fun action_type :: "json \<Rightarrow> json" where
  "action_type (JList (c # t # rest)) = t"
| "action_type a = JStr (py_str a)"

fun group_actions ::
  "json list \<Rightarrow> (json \<times> json list) list \<Rightarrow> error + (json \<times> json list) list" where
  "group_actions [] grouped = Inr grouped"
| "group_actions (a # todo) grouped =
     (let atype = action_type a;
          val = third a
      in if hashable atype then group_actions todo (group_add atype val grouped)
         else Inl TypeError)"

text \<open>
  The body of the loop over the groups. \<^verbatim>\<open>len(atype)\<close> raises \<^verbatim>\<open>TypeError\<close> when the type
  is not a string.
\<close>

definition print_group :: "json \<Rightarrow> json list \<Rightarrow> error + string list" where
  "print_group atype vals =
     (let hint = action_hint atype
      in if list_all (\<lambda>v. v = JNull) vals then
           Inr ((''  '' @ py_str atype)
                # (case hint of Some h \<Rightarrow> [''    ('' @ h @ '')''] | None \<Rightarrow> []))
         else
           (let formatted = map json_dumps vals
            in case hint of
                 Some h \<Rightarrow>
                   Inr ((''  '' @ py_str atype @ '' ('' @ str_int (int (length vals))
                           @ '' options):'')
                        # (''    ('' @ h @ '')'')
                        # map (\<lambda>f. ''    '' @ f) formatted)
               | None \<Rightarrow>
                   (let joined = join '' | '' formatted
                    in case atype of
                         JStr t \<Rightarrow>
                           if length joined + length t + 4 \<le> 120
                           then Inr [''  '' @ t @ '': '' @ joined]
                           else Inr ((''  '' @ t @ '' ('' @ str_int (int (length vals))
                                        @ '' options):'')
                                     # map (\<lambda>f. ''    '' @ f) formatted)
                       | _ \<Rightarrow> Inl TypeError)))"

fun print_groups :: "(json \<times> json list) list \<Rightarrow> error + string list" where
  "print_groups [] = Inr []"
| "print_groups ((atype, vals) # g) =
     (case print_group atype vals of
        Inl e \<Rightarrow> Inl e
      | Inr out \<Rightarrow> (case print_groups g of Inl e \<Rightarrow> Inl e | Inr later \<Rightarrow> Inr (out @ later)))"

text \<open>
  \<^verbatim>\<open>', '.join(sorted(other_colors))\<close>: with a member that is not a string, \<^verbatim>\<open>sorted\<close> or
  \<^verbatim>\<open>join\<close> raises \<^verbatim>\<open>TypeError\<close>; strings are ordered by code points.
\<close>

fun str_val :: "json \<Rightarrow> string option" where
  "str_val (JStr s) = Some s"
| "str_val v = None"

definition sorted_join :: "json list \<Rightarrow> error + string" where
  "sorted_join cs =
     (if list_all (\<lambda>c. str_val c \<noteq> None) cs
      then Inr (join '', '' (sort (map (\<lambda>c. the (str_val c)) cs)))
      else Inl TypeError)"

text \<open>
  \<^verbatim>\<open>_print_actions(actions, my_color)\<close>: the lines printed when the call returns, or the
  exception that it raises (the lines printed before the exception are not kept).
\<close>

definition print_actions :: "json list \<Rightarrow> string option \<Rightarrow> error + string list" where
  "print_actions actions my_color =
     (case split_actions my_color actions [] [] of
        Inl e \<Rightarrow> Inl e
      | Inr (my_actions, other_colors) \<Rightarrow>
          if my_actions = [] \<and> other_colors \<noteq> [] then
            (case sorted_join other_colors of
               Inl e \<Rightarrow> Inl e
             | Inr s \<Rightarrow>
                 Inr [section_line ''Available Actions'',
                      ''  (none for you -- waiting on: '' @ s @ '')''])
          else
            (case group_actions my_actions [] of
               Inl e \<Rightarrow> Inl e
             | Inr grouped \<Rightarrow>
                 (case print_groups grouped of
                    Inl e \<Rightarrow> Inl e
                  | Inr out \<Rightarrow>
                      if other_colors \<noteq> [] then
                        (case sorted_join other_colors of
                           Inl e \<Rightarrow> Inl e
                         | Inr s \<Rightarrow>
                             Inr (section_line ''Available Actions'' # out
                                  @ [CHR 0x0A # ''  (other players still need to act: '' @ s
                                       @ '')'']))
                      else Inr (section_line ''Available Actions'' # out))))"

section \<open>Waiting for the turn\<close>

text \<open>
  One pass of the poll loop of \<^verbatim>\<open>cmd_wait\<close> meets one answer to the status request:
  \<^item> \<open>Failed code detail\<close>: \<^verbatim>\<open>_get\<close> raises \<^verbatim>\<open>APIError(code, detail)\<close>, which \<^verbatim>\<open>_req\<close> makes of
    an \<^verbatim>\<open>HTTPError\<close> (its code) and of a \<^verbatim>\<open>URLError\<close> (code 0);
  \<^item> \<open>Raised name\<close>: \<^verbatim>\<open>_get\<close> raises any other exception, which \<^verbatim>\<open>_req\<close> lets through: a
    \<^verbatim>\<open>JSONDecodeError\<close> when the body of the response is not JSON, or the error of a
    connection that drops while the response is read;
  \<^item> \<open>Fetched status\<close>: the status document.
  With it comes the reading that \<^verbatim>\<open>time.monotonic()\<close> gives in that pass (the loop reads the
  clock at most once per pass); times are counted in whole ticks.
\<close>

datatype fetch = Failed int json | Raised string | Fetched "string \<rightharpoonup> json"

text \<open>
  What the loop does, in order: a status request, the request of the full state after the
  game is over, a line on standard output or on standard error, a \<^verbatim>\<open>time.sleep(poll)\<close>.
\<close>

datatype effect = Fetch | FetchState | Stdout string | Stderr string | Sleep

text \<open>
  How the loop is left: \<open>NotFound\<close> and \<open>Timeout\<close> are the two \<^verbatim>\<open>sys.exit(1)\<close>, \<open>GameOver\<close> the
  \<^verbatim>\<open>return\<close> after the final scores, \<open>MyTurn\<close> the \<^verbatim>\<open>break\<close> that leads to the briefing,
  \<open>Crashed\<close> the exception that \<^verbatim>\<open>except APIError\<close> does not catch and that leaves
  \<^verbatim>\<open>cmd_wait\<close>; \<open>Polling\<close> says that the loop is still running when the answers given are
  used up.
\<close>

datatype outcome = NotFound | Timeout | GameOver | MyTurn | Crashed | Polling

text \<open>The block of progress messages: the lines printed and the new \<^verbatim>\<open>phase_shown\<close>.\<close>

definition progress :: "(string \<rightharpoonup> json) \<Rightarrow> string option \<Rightarrow> effect list \<times> string option" where
  "progress status phase_shown =
     (if \<not> get_truthy status ''started'' then
        (let pj = dict_get status ''players_joined'' (JStr ''?'');
             np = dict_get status ''num_players'' (JStr ''?'')
         in if phase_shown \<noteq> Some ''lobby''
            then ([Stderr (''Waiting for players ('' @ py_str pj @ ''/'' @ py_str np @ '')...'')],
                  Some ''lobby'')
            else ([], phase_shown))
      else
        (if phase_shown \<noteq> Some ''turn''
         then (let cur = dict_get status ''current_color'' (JStr ''?'')
               in ([Stderr (''Waiting for your turn (current: '' @ py_str cur @ '')...'')],
                   Some ''turn''))
         else ([], phase_shown)))"

text \<open>
  The final scores of the game-over branch; \<open>final\<close> is the state that the second request
  gives, or \<open>None\<close> when it raises, in which case nothing more is printed.
\<close>

fun score_lines :: "(string \<rightharpoonup> json) \<Rightarrow> json \<Rightarrow> nat \<Rightarrow> string list \<Rightarrow> effect list" where
  "score_lines ps winner i [] = []"
| "score_lines ps winner i (c # cs) =
     (let vp = dict_get ps (''P'' @ str_int (int i) @ ''_TREASURE_CHESTS'') (JInt 0);
          marker = (if JStr c = winner then '' <-- WINNER'' else [])
      in Stdout (''  '' @ c @ '': '' @ py_str vp @ '' VP'' @ marker)
         # score_lines ps winner (Suc i) cs)"

definition game_over :: "(string \<rightharpoonup> json) \<Rightarrow> game_state option \<Rightarrow> effect list" where
  "game_over status final =
     (let winner = dict_get status ''winning_color'' JNull
      in [Stdout (header_line ''GAME OVER''), Stdout (''  Winner: '' @ py_str winner)]
         @ (case final of
              None \<Rightarrow> [FetchState]
            | Some state \<Rightarrow>
                FetchState # Stdout (section_line ''Final Scores'')
                # score_lines (player_state state) winner 0 (colors state)))"

text \<open>
  The poll loop, entered with \<^verbatim>\<open>phase_shown = None\<close>: the effects in order and the way the
  loop is left.
\<close>

fun wait_loop ::
  "string \<Rightarrow> game_state option \<Rightarrow> int \<Rightarrow> string option \<Rightarrow> (fetch \<times> int) list
     \<Rightarrow> effect list \<times> outcome" where
  "wait_loop game_id final deadline phase_shown [] = ([], Polling)"
| "wait_loop game_id final deadline phase_shown ((Failed code detail, now) # es) =
     (if code = 404 then ([Fetch, Stderr (''ERROR: Game not found: '' @ game_id)], NotFound)
      else if now \<ge> deadline
        then ([Fetch, Stderr (''ERROR: Timeout ('' @ py_str detail @ '')'')], Timeout)
      else (let (log, out) = wait_loop game_id final deadline phase_shown es
            in (Fetch # Sleep # log, out)))"
| "wait_loop game_id final deadline phase_shown ((Raised name, now) # es) = ([Fetch], Crashed)"
| "wait_loop game_id final deadline phase_shown ((Fetched status, now) # es) =
     (if get_truthy status ''winning_color'' then (Fetch # game_over status final, GameOver)
      else
        (let (notice, phase) = progress status phase_shown
         in if get_truthy status ''your_turn'' then (Fetch # notice, MyTurn)
            else if now \<ge> deadline
              then (Fetch # notice @ [Stderr ''ERROR: Timeout waiting for turn''], Timeout)
            else (let (log, out) = wait_loop game_id final deadline phase es
                  in (Fetch # notice @ Sleep # log, out))))"

definition cmd_wait_loop ::
  "string \<Rightarrow> game_state option \<Rightarrow> int \<Rightarrow> (fetch \<times> int) list \<Rightarrow> effect list \<times> outcome" where
  "cmd_wait_loop game_id final deadline es = wait_loop game_id final deadline None es"

section \<open>Notions used to state the properties\<close>









text \<open>The color in the first slot of an action descriptor that names one.\<close>

fun other_color :: "json \<Rightarrow> string" where
  "other_color (JList (JStr c # rest)) = c"
| "other_color a = []"

text \<open>The line that opens a group printed with one payload per line.\<close>

definition count_line :: "string \<Rightarrow> json list \<Rightarrow> string" where
  "count_line t vals = ''  '' @ t @ '' ('' @ str_int (int (length vals)) @ '' options):''"

text \<open>
  The phase that a line on standard error announces: the two progress notices start with
  fixed words, and no other line of the loop does.
\<close>

definition notice_phase :: "effect \<Rightarrow> string option" where
  "notice_phase e =
     (case e of
        Stderr s \<Rightarrow>
          if take 21 s = ''Waiting for players ('' then Some ''lobby''
          else if take 32 s = ''Waiting for your turn (current: '' then Some ''turn''
          else None
      | _ \<Rightarrow> None)"

definition phases :: "effect list \<Rightarrow> string list" where
  "phases log = List.map_filter notice_phase log"

text \<open>The line that announces the wait for the turn.\<close>

definition turn_notice :: "(string \<rightharpoonup> json) \<Rightarrow> effect" where
  "turn_notice status =
     Stderr (''Waiting for your turn (current: ''
             @ py_str (dict_get status ''current_color'' (JStr ''?'')) @ '')...'')"

text \<open>A pass of the loop that met an \<^verbatim>\<open>APIError\<close> other than 404 before the deadline.\<close>

definition transient :: "int \<Rightarrow> fetch \<times> int \<Rightarrow> bool" where
  "transient deadline e =
     (case fst e of
        Failed code detail \<Rightarrow> code \<noteq> 404 \<and> snd e < deadline
      | Raised name \<Rightarrow> False
      | Fetched s \<Rightarrow> False)"

text \<open>
  The report on the legal actions in the words of the specification. An action belongs to
  another color when it is a list of at least two slots whose first slot is a color that is
  not null and is not the agent's; every other action is a self-action. The self-actions
  are grouped by action type, the types in the order of their first occurrence, each with
  the payloads of its actions in order.
\<close>

fun foreign :: "string option \<Rightarrow> json \<Rightarrow> bool" where
  "foreign my_color (JList (c # t # rest)) = is_other my_color c"
| "foreign my_color a = False"

fun str_color :: "json \<Rightarrow> bool" where
  "str_color (JList (JStr c # rest)) = True"
| "str_color a = False"

definition first_seen :: "'a list \<Rightarrow> 'a list" where
  "first_seen xs = rev (remdups (rev xs))"

definition type_name :: "json \<Rightarrow> string" where
  "type_name a = (case action_type a of JStr t \<Rightarrow> t | _ \<Rightarrow> [])"

definition payloads :: "string \<Rightarrow> json list \<Rightarrow> json list" where
  "payloads t acts = map third (filter (\<lambda>a. action_type a = JStr t) acts)"

definition groups_of :: "json list \<Rightarrow> (json \<times> json list) list" where
  "groups_of acts = map (\<lambda>t. (JStr t, payloads t acts)) (first_seen (map type_name acts))"

text \<open>
  The lines of one group: the bare type (and its hint) when every payload is absent;
  otherwise, for a type with a hint, the count, the hint and one payload per line; for a
  type without a hint, one line when it fits the width of 120 and the count and one payload
  per line when it does not.
\<close>

definition group_lines :: "string \<Rightarrow> json list \<Rightarrow> string list" where
  "group_lines t vals =
     (if list_all (\<lambda>v. v = JNull) vals then
        (case map_of ACTION_HINTS t of
           Some h \<Rightarrow> [''  '' @ t, ''    ('' @ h @ '')'']
         | None \<Rightarrow> [''  '' @ t])
      else
        (case map_of ACTION_HINTS t of
           Some h \<Rightarrow>
             count_line t vals # (''    ('' @ h @ '')'')
             # map (\<lambda>v. ''    '' @ json_dumps v) vals
         | None \<Rightarrow>
             if length (join '' | '' (map json_dumps vals)) + length t + 4 \<le> 120
             then [''  '' @ t @ '': '' @ join '' | '' (map json_dumps vals)]
             else count_line t vals # map (\<lambda>v. ''    '' @ json_dumps v) vals))"

section \<open>Properties\<close>

subsection \<open>History delta\<close>

text \<open>
  Claim C8. For every record sequence and every previously seen count \<open>n\<close>, the history
  delta is the suffix \<^verbatim>\<open>records[n:]\<close> rendered in order, one line per record under one
  section header; when \<open>n\<close> is the length of the sequence nothing is printed, not even the
  header.
\<close>

theorem print_history_suffix:
  "print_history records (int n) =
     (if n < length records
      then section_line (''Recent Actions ('' @ str_int (int (length records - n)) @ '' moves)'')
           # map history_line (drop n records)
      else [])
   \<and> print_history records (int (length records)) = []"
  by (simp add: print_history_def slice_from_def Let_def)

theorem print_history_suffix_witness:
  "print_history
     [JList [JStr ''RED'', JStr ''ROLL_THE_SHELLS'', JList [JInt 3, JInt 4]],
      JList [JStr ''RED'', JStr ''BUILD_TIDE_POOL'', JInt 12],
      JList [JStr ''BLUE'', JStr ''END_TIDE'', JNull]] 1 =
     [section_line ''Recent Actions (2 moves)'', ''  RED: BUILD_TIDE_POOL 12'', ''  BLUE: END_TIDE'']"
  using print_history_suffix
    [of "[JList [JStr ''RED'', JStr ''ROLL_THE_SHELLS'', JList [JInt 3, JInt 4]],
          JList [JStr ''RED'', JStr ''BUILD_TIDE_POOL'', JInt 12],
          JList [JStr ''BLUE'', JStr ''END_TIDE'', JNull]]" 1]
  by (simp add: history_line_def str_int_def digits10.simps digit_char_def)

subsection \<open>Self status\<close>










subsection \<open>Roll result\<close>

lemma scan_roll_none: "\<forall>x\<in>set rs. \<not> is_roll x \<Longrightarrow> scan_roll rs = JNull"
  by (induction rs) auto

lemma scan_roll_first:
  "\<forall>x\<in>set pre. \<not> is_roll x \<Longrightarrow> is_roll r \<Longrightarrow> scan_roll (pre @ r # post) = third r"
  by (induction pre) auto

lemma scan_roll_last:
  assumes "is_roll r" "\<forall>x\<in>set after. \<not> is_roll x"
  shows "scan_roll (rev (before @ r # after)) = third r"
proof -
  have "rev (before @ r # after) = rev after @ r # rev before" by simp
  moreover have "\<forall>x\<in>set (rev after). \<not> is_roll x" using assms(2) by simp
  ultimately show ?thesis using scan_roll_first assms(1) by metis
qed

text \<open>
  Claim C2, as the code has it. A sequence whose most recent \<^verbatim>\<open>ROLL_THE_SHELLS\<close> record
  carries no value (no third slot, or \<^verbatim>\<open>null\<close> there) prints no roll line: here the only
  record is such a roll, and nothing is printed.
\<close>

theorem roll_without_value_counterexample:
  "print_roll_result
     \<lparr> colors = [], player_state = Map.empty,
       action_records = [JList [JStr ''RED'', JStr ''ROLL_THE_SHELLS'']] \<rparr> None = Inr []"
  by (simp add: print_roll_result_def roll_lines_def)

text \<open>
  Claim C2, amended. The most recent roll record is the record \<open>r\<close> with only records that
  are not rolls after it. With no roll record the roll line is omitted; with a most recent
  roll record it is omitted when the record carries no value (absent or \<^verbatim>\<open>null\<close>), it is
  \<^verbatim>\<open>a + b = a+b\<close> when the value is a list of two integers, and it is the raw value when
  the value is present and is not a list of two elements.
\<close>

theorem roll_line_most_recent:
  "((\<forall>x\<in>set (action_records st). \<not> is_roll x) \<longrightarrow> print_roll_result st None = Inr [])
 \<and> (action_records st = before @ r # after \<and> is_roll r \<and> (\<forall>x\<in>set after. \<not> is_roll x) \<longrightarrow>
      (third r = JNull \<longrightarrow> print_roll_result st None = Inr [])
    \<and> (third r = JList [JInt a, JInt b] \<longrightarrow>
         print_roll_result st None =
           Inr [''  Rolled: '' @ str_int a @ '' + '' @ str_int b @ '' = '' @ str_int (a + b)])
    \<and> (third r \<noteq> JNull \<and> (\<forall>x y. third r \<noteq> JList [x, y]) \<longrightarrow>
         print_roll_result st None = Inr [''  Rolled: '' @ py_str (third r)]))"
proof (intro conjI impI)
  assume "\<forall>x\<in>set (action_records st). \<not> is_roll x"
  then have "scan_roll (rev (action_records st)) = JNull"
    by (simp add: scan_roll_none)
  then show "print_roll_result st None = Inr []"
    by (simp add: print_roll_result_def roll_lines_def)
next
  assume h: "action_records st = before @ r # after \<and> is_roll r \<and> (\<forall>x\<in>set after. \<not> is_roll x)"
  then have s: "scan_roll (rev (action_records st)) = third r"
    using scan_roll_last by metis
  { assume "third r = JNull"
    with s show "print_roll_result st None = Inr []"
      by (simp add: print_roll_result_def roll_lines_def) }
  { assume "third r = JList [JInt a, JInt b]"
    with s show "print_roll_result st None =
           Inr [''  Rolled: '' @ str_int a @ '' + '' @ str_int b @ '' = '' @ str_int (a + b)]"
      by (simp add: print_roll_result_def roll_lines_def) }
  { assume n: "third r \<noteq> JNull \<and> (\<forall>x y. third r \<noteq> JList [x, y])"
    then have "roll_lines (third r) = Inr [''  Rolled: '' @ py_str (third r)]"
      by (auto simp: roll_lines_def split: json.splits list.splits)
    with s show "print_roll_result st None = Inr [''  Rolled: '' @ py_str (third r)]"
      by (simp add: print_roll_result_def) }
qed

text \<open>The roll \<^verbatim>\<open>[3,4]\<close>, followed by a record that is not a roll, is reported as 7.\<close>

theorem roll_line_most_recent_witness:
  "print_roll_result
     \<lparr> colors = [''RED''], player_state = Map.empty,
       action_records = [JList [JStr ''RED'', JStr ''ROLL_THE_SHELLS'', JList [JInt 3, JInt 4]],
                         JList [JStr ''RED'', JStr ''END_TIDE'', JNull]] \<rparr> None
   = Inr [''  Rolled: 3 + 4 = 7'']"
  using roll_line_most_recent
    [of "\<lparr> colors = [''RED''], player_state = Map.empty,
           action_records = [JList [JStr ''RED'', JStr ''ROLL_THE_SHELLS'', JList [JInt 3, JInt 4]],
                             JList [JStr ''RED'', JStr ''END_TIDE'', JNull]] \<rparr>"
        "[]" "JList [JStr ''RED'', JStr ''ROLL_THE_SHELLS'', JList [JInt 3, JInt 4]]"
        "[JList [JStr ''RED'', JStr ''END_TIDE'', JNull]]" 3 4]
  by (simp add: str_int_def digits10.simps digit_char_def)

subsection \<open>Resource delta\<close>














subsection \<open>The poll loop\<close>

text \<open>One pass of the loop, by the answer it meets.\<close>

lemma wait_loop_failed:
  "wait_loop g f d ph ((Failed code detail, now) # es) =
     (if code = 404 then ([Fetch, Stderr (''ERROR: Game not found: '' @ g)], NotFound)
      else if d \<le> now then ([Fetch, Stderr (''ERROR: Timeout ('' @ py_str detail @ '')'')], Timeout)
      else (Fetch # Sleep # fst (wait_loop g f d ph es), snd (wait_loop g f d ph es)))"
  by (simp add: split_def Let_def)

lemma wait_loop_fetched:
  "wait_loop g f d ph ((Fetched st, now) # es) =
     (if get_truthy st ''winning_color'' then (Fetch # game_over st f, GameOver)
      else if get_truthy st ''your_turn'' then (Fetch # fst (progress st ph), MyTurn)
      else if d \<le> now
        then (Fetch # fst (progress st ph) @ [Stderr ''ERROR: Timeout waiting for turn''], Timeout)
      else (Fetch # fst (progress st ph) @ Sleep # fst (wait_loop g f d (snd (progress st ph)) es),
            snd (wait_loop g f d (snd (progress st ph)) es)))"
  by (simp add: split_def Let_def)

declare wait_loop.simps(2,4) [simp del]

lemma wait_transient_run:
  "list_all (transient d) fs \<Longrightarrow>
   wait_loop g f d ph (fs @ es) =
     (concat (map (\<lambda>e. [Fetch, Sleep]) fs) @ fst (wait_loop g f d ph es),
      snd (wait_loop g f d ph es))"
proof (induction fs)
  case Nil
  then show ?case by simp
next
  case (Cons e fs)
  obtain r now where e: "e = (r, now)" by (cases e)
  from Cons.prems e obtain code detail where r: "r = Failed code detail" "code \<noteq> 404" "now < d"
    by (cases r) (auto simp: transient_def)
  from Cons have "wait_loop g f d ph (fs @ es) =
     (concat (map (\<lambda>e. [Fetch, Sleep]) fs) @ fst (wait_loop g f d ph es),
      snd (wait_loop g f d ph es))"
    by simp
  then show ?case using e r by (simp add: wait_loop_failed)
qed

text \<open>
  Claim C1, as the code has it. The loop catches \<^verbatim>\<open>APIError\<close> only. A status request that
  fails with another exception, here a response body that is not JSON, three ticks into a
  wait of ten, is not retried and is no timeout: the exception leaves \<^verbatim>\<open>cmd_wait\<close>, although
  the server would answer the next request.
\<close>

theorem uncaught_fetch_failure_counterexample:
  "cmd_wait_loop ''g1'' None 10
     [(Raised ''JSONDecodeError'', 3),
      (Fetched [''started'' \<mapsto> JBool True, ''your_turn'' \<mapsto> JBool True], 4)]
   = ([Fetch], Crashed)"
  by (simp add: cmd_wait_loop_def)

text \<open>
  Claim C1, amended. A status request that fails with an \<^verbatim>\<open>APIError\<close> of code 404 ends the
  wait at once: the error line is printed, there is no sleep and no further request,
  whatever the server would answer next. Every other \<^verbatim>\<open>APIError\<close> is followed by a sleep
  and the next pass, with the phase shown unchanged, when the clock is before the deadline,
  and by the timeout error when the deadline is reached; a run of such failures before the
  deadline costs one request and one sleep each. A failure that is raised as any other
  exception is not caught: the wait ends at once with that exception, without a retry and
  without a timeout message.
\<close>

theorem fetch_failure_handling:
  "wait_loop g f d ph ((Failed 404 detail, now) # es) =
     ([Fetch, Stderr (''ERROR: Game not found: '' @ g)], NotFound)
 \<and> (code \<noteq> 404 \<and> d \<le> now \<longrightarrow>
      wait_loop g f d ph ((Failed code detail, now) # es) =
        ([Fetch, Stderr (''ERROR: Timeout ('' @ py_str detail @ '')'')], Timeout))
 \<and> (code \<noteq> 404 \<and> now < d \<longrightarrow>
      wait_loop g f d ph ((Failed code detail, now) # es) =
        (Fetch # Sleep # fst (wait_loop g f d ph es), snd (wait_loop g f d ph es)))
 \<and> (list_all (transient d) fs \<longrightarrow>
      wait_loop g f d ph (fs @ es) =
        (concat (map (\<lambda>e. [Fetch, Sleep]) fs) @ fst (wait_loop g f d ph es),
         snd (wait_loop g f d ph es)))
 \<and> wait_loop g f d ph ((Raised name, now) # es) = ([Fetch], Crashed)"
  using wait_transient_run [of d fs g f ph es]
  by (simp add: wait_loop_failed)

text \<open>
  A server error at tick 3 is retried, the 404 that follows is fatal although a further
  answer is at hand; the same server error at tick 12, past the deadline 10, is a timeout.
\<close>

theorem fetch_failure_handling_witness:
  "cmd_wait_loop ''g1'' None 10
     [(Failed 500 (JStr ''boom''), 3), (Failed 404 (JStr ''gone''), 4), (Fetched Map.empty, 5)]
   = ([Fetch, Sleep, Fetch, Stderr ''ERROR: Game not found: g1''], NotFound)
 \<and> cmd_wait_loop ''g1'' None 10 [(Failed 500 (JStr ''boom''), 12), (Fetched Map.empty, 13)]
   = ([Fetch, Stderr ''ERROR: Timeout (boom)''], Timeout)"
  using fetch_failure_handling
    [of "''g1''" None 10 None "JStr ''gone''" 4 "[(Fetched Map.empty, 5)]" 500 "[]"]
    fetch_failure_handling
    [of "''g1''" None 10 None "JStr ''boom''" 3
        "[(Failed 404 (JStr ''gone''), 4), (Fetched Map.empty, 5)]" 500 "[]"]
    fetch_failure_handling
    [of "''g1''" None 10 None "JStr ''boom''" 12 "[(Fetched Map.empty, 13)]" 500 "[]"]
  by (simp add: cmd_wait_loop_def)

lemma wait_timeout_position:
  "snd (wait_loop g f d ph es) = Timeout \<Longrightarrow>
   \<exists>pre e now post. es = pre @ (e, now) # post \<and> snd (wait_loop g f d ph pre) = Polling
      \<and> d \<le> now
      \<and> (\<forall>st. e = Fetched st \<longrightarrow>
            \<not> get_truthy st ''winning_color'' \<and> \<not> get_truthy st ''your_turn'')"
proof (induction es arbitrary: ph)
  case Nil
  then show ?case by simp
next
  case (Cons x es)
  obtain r now where x: "x = (r, now)" by (cases x)
  show ?case
  proof (cases r)
    case (Failed code detail)
    show ?thesis
    proof (cases "code \<noteq> 404 \<and> now < d")
      case True
      with Cons.prems x Failed have "snd (wait_loop g f d ph es) = Timeout"
        by (simp add: wait_loop_failed)
      from Cons.IH [OF this] obtain pre e now' post where
        p: "es = pre @ (e, now') # post" "snd (wait_loop g f d ph pre) = Polling" "d \<le> now'"
          "\<forall>st. e = Fetched st \<longrightarrow>
             \<not> get_truthy st ''winning_color'' \<and> \<not> get_truthy st ''your_turn''"
        by blast
      from p(1) x have "x # es = (x # pre) @ (e, now') # post" by simp
      moreover from True p(2) x Failed have "snd (wait_loop g f d ph (x # pre)) = Polling"
        by (simp add: wait_loop_failed)
      ultimately show ?thesis using p(3,4) by blast
    next
      case False
      with Cons.prems x Failed have "d \<le> now"
        by (simp add: wait_loop_failed split: if_splits)
      moreover have "x # es = [] @ (r, now) # es" using x by simp
      moreover have "snd (wait_loop g f d ph []) = Polling" by simp
      moreover have "\<forall>st. r = Fetched st \<longrightarrow>
          \<not> get_truthy st ''winning_color'' \<and> \<not> get_truthy st ''your_turn''"
        using Failed by simp
      ultimately show ?thesis by blast
    qed
  next
    case (Raised name)
    with Cons.prems x show ?thesis by simp
  next
    case (Fetched st)
    show ?thesis
    proof (cases "\<not> get_truthy st ''winning_color'' \<and> \<not> get_truthy st ''your_turn'' \<and> now < d")
      case True
      with Cons.prems x Fetched
      have "snd (wait_loop g f d (snd (progress st ph)) es) = Timeout"
        by (simp add: wait_loop_fetched)
      from Cons.IH [OF this] obtain pre e now' post where
        p: "es = pre @ (e, now') # post"
          "snd (wait_loop g f d (snd (progress st ph)) pre) = Polling" "d \<le> now'"
          "\<forall>st. e = Fetched st \<longrightarrow>
             \<not> get_truthy st ''winning_color'' \<and> \<not> get_truthy st ''your_turn''"
        by blast
      from p(1) x have "x # es = (x # pre) @ (e, now') # post" by simp
      moreover from True p(2) x Fetched have "snd (wait_loop g f d ph (x # pre)) = Polling"
        by (simp add: wait_loop_fetched)
      ultimately show ?thesis using p(3,4) by blast
    next
      case False
      with Cons.prems x Fetched
      have "\<not> get_truthy st ''winning_color'' \<and> \<not> get_truthy st ''your_turn'' \<and> d \<le> now"
        by (simp add: wait_loop_fetched split: if_splits)
      moreover have "x # es = [] @ (r, now) # es" using x by simp
      moreover have "snd (wait_loop g f d ph []) = Polling" by simp
      ultimately show ?thesis using Fetched by blast
    qed
  qed
qed

text \<open>
  Claim C10. In a pass that fetched a status, the deadline is looked at after the tests of
  the winning color and of the turn flag: a status with a winning color ends the wait as
  game over, and otherwise a status with the turn flag ends it as the agent's turn,
  whatever the clock says. A wait that ends in a timeout does so in a pass that the loop
  reached still polling, at or past the deadline, and whose status, if one was fetched,
  has neither a winning color nor the turn flag.
\<close>

theorem deadline_checked_last:
  "(get_truthy st ''winning_color'' \<longrightarrow>
      snd (wait_loop g f d ph ((Fetched st, now) # es)) = GameOver)
 \<and> (\<not> get_truthy st ''winning_color'' \<and> get_truthy st ''your_turn'' \<longrightarrow>
      snd (wait_loop g f d ph ((Fetched st, now) # es)) = MyTurn)
 \<and> (snd (wait_loop g f d ph trace) = Timeout \<longrightarrow>
      (\<exists>pre e t post. trace = pre @ (e, t) # post \<and> snd (wait_loop g f d ph pre) = Polling
          \<and> d \<le> t
          \<and> (\<forall>s. e = Fetched s \<longrightarrow>
                \<not> get_truthy s ''winning_color'' \<and> \<not> get_truthy s ''your_turn'')))"
  using wait_timeout_position [of g f d ph trace]
  by (simp add: wait_loop_fetched)

text \<open>
  Far past the deadline 10, a status with a winning color is game over and a status with
  the turn flag is the agent's turn; a started game that is someone else's turn times out.
\<close>

theorem deadline_checked_last_witness:
  "snd (cmd_wait_loop ''g1'' None 10
          [(Fetched [''started'' \<mapsto> JBool True, ''winning_color'' \<mapsto> JStr ''BLUE''], 99)])
     = GameOver
 \<and> snd (cmd_wait_loop ''g1'' None 10
          [(Fetched [''started'' \<mapsto> JBool True, ''your_turn'' \<mapsto> JBool True], 99)])
     = MyTurn
 \<and> snd (cmd_wait_loop ''g1'' None 10
          [(Fetched [''started'' \<mapsto> JBool True], 5), (Fetched [''started'' \<mapsto> JBool True], 99)])
     = Timeout"
  using deadline_checked_last
    [of "[''started'' \<mapsto> JBool True, ''winning_color'' \<mapsto> JStr ''BLUE'']" "''g1''" None 10 None
        99 "[]"
        "[(Fetched [''started'' \<mapsto> JBool True], 5), (Fetched [''started'' \<mapsto> JBool True], 99)]"]
    deadline_checked_last
    [of "[''started'' \<mapsto> JBool True, ''your_turn'' \<mapsto> JBool True]" "''g1''" None 10 None
        99 "[]"
        "[(Fetched [''started'' \<mapsto> JBool True], 5), (Fetched [''started'' \<mapsto> JBool True], 99)]"]
  by (simp add: cmd_wait_loop_def get_truthy_def wait_loop_fetched)

subsection \<open>Progress notices\<close>

lemma progress_started:
  "get_truthy st ''started'' \<Longrightarrow>
   progress st ph = ((if ph \<noteq> Some ''turn'' then [turn_notice st] else []), Some ''turn'')"
  by (simp add: progress_def turn_notice_def Let_def)

text \<open>
  Claim C4, as the code has it. The progress messages are printed before the turn flag is
  looked at: on a first poll of a started game that is already the agent's turn, the line
  \<^verbatim>\<open>Waiting for your turn\<close> is printed and then the wait ends as the agent's turn.
\<close>

theorem turn_notice_on_my_turn_counterexample:
  "cmd_wait_loop ''g1'' None 10
     [(Fetched [''started'' \<mapsto> JBool True, ''your_turn'' \<mapsto> JBool True,
                ''current_color'' \<mapsto> JStr ''RED''], 0)]
   = ([Fetch, Stderr ''Waiting for your turn (current: RED)...''], MyTurn)"
  by (simp add: cmd_wait_loop_def wait_loop_fetched get_truthy_def progress_def dict_get_def)

text \<open>
  Claim C4, amended. On every successful poll of a started game without a winning color,
  the notice \<^verbatim>\<open>Waiting for your turn\<close> is printed exactly when the phase shown last is not
  \<^verbatim>\<open>turn\<close>, whether the status is flagged as the agent's turn or not. When it is flagged,
  the wait ends as the agent's turn right after, with no sleep and no further poll. When
  it is not flagged, the loop, before the deadline, sleeps and polls again with the phase
  \<^verbatim>\<open>turn\<close> shown, and at or past the deadline prints the timeout error after the notice
  and ends the wait.
\<close>

theorem turn_notice_before_turn_check:
  "(\<not> get_truthy st ''winning_color'' \<and> get_truthy st ''started''
      \<and> get_truthy st ''your_turn'' \<longrightarrow>
      wait_loop g f d ph ((Fetched st, now) # es) =
        (Fetch # (if ph \<noteq> Some ''turn'' then [turn_notice st] else []), MyTurn))
 \<and> (\<not> get_truthy st ''winning_color'' \<and> get_truthy st ''started''
      \<and> \<not> get_truthy st ''your_turn'' \<and> now < d \<longrightarrow>
      wait_loop g f d ph ((Fetched st, now) # es) =
        (Fetch # (if ph \<noteq> Some ''turn'' then [turn_notice st] else [])
           @ Sleep # fst (wait_loop g f d (Some ''turn'') es),
         snd (wait_loop g f d (Some ''turn'') es)))
 \<and> (\<not> get_truthy st ''winning_color'' \<and> get_truthy st ''started''
      \<and> \<not> get_truthy st ''your_turn'' \<and> d \<le> now \<longrightarrow>
      wait_loop g f d ph ((Fetched st, now) # es) =
        (Fetch # (if ph \<noteq> Some ''turn'' then [turn_notice st] else [])
           @ [Stderr ''ERROR: Timeout waiting for turn''],
         Timeout))"
  by (simp add: wait_loop_fetched progress_started)

text \<open>
  A poll during another player's turn prints the notice; the next poll, flagged as the
  agent's turn, ends the wait and prints nothing, the phase \<^verbatim>\<open>turn\<close> being shown already.
  A first poll during another player's turn, past the deadline, prints the notice and then
  the timeout error.
\<close>

theorem turn_notice_before_turn_check_witness:
  "cmd_wait_loop ''g1'' None 10
     [(Fetched [''started'' \<mapsto> JBool True, ''current_color'' \<mapsto> JStr ''BLUE''], 1),
      (Fetched [''started'' \<mapsto> JBool True, ''your_turn'' \<mapsto> JBool True,
                ''current_color'' \<mapsto> JStr ''RED''], 2)]
   = ([Fetch, Stderr ''Waiting for your turn (current: BLUE)...'', Sleep, Fetch], MyTurn)
 \<and> cmd_wait_loop ''g1'' None 10
     [(Fetched [''started'' \<mapsto> JBool True, ''current_color'' \<mapsto> JStr ''BLUE''], 11)]
   = ([Fetch, Stderr ''Waiting for your turn (current: BLUE)...'',
       Stderr ''ERROR: Timeout waiting for turn''], Timeout)"
  using turn_notice_before_turn_check
    [of "[''started'' \<mapsto> JBool True, ''current_color'' \<mapsto> JStr ''BLUE'']" "''g1''" None 10 None 1
        "[(Fetched [''started'' \<mapsto> JBool True, ''your_turn'' \<mapsto> JBool True,
                ''current_color'' \<mapsto> JStr ''RED''], 2)]"]
    turn_notice_before_turn_check
    [of "[''started'' \<mapsto> JBool True, ''your_turn'' \<mapsto> JBool True,
                ''current_color'' \<mapsto> JStr ''RED'']" "''g1''" None 10 "Some ''turn''" 2 "[]"]
    turn_notice_before_turn_check
    [of "[''started'' \<mapsto> JBool True, ''current_color'' \<mapsto> JStr ''BLUE'']" "''g1''" None 10 None 11
        "[]"]
  by (simp add: cmd_wait_loop_def get_truthy_def turn_notice_def dict_get_def)

lemma phases_Cons_simps:
  "phases (Fetch # l) = phases l" "phases (Sleep # l) = phases l"
  "phases (FetchState # l) = phases l" "phases (Stdout s # l) = phases l" "phases [] = []"
  by (simp_all add: phases_def notice_phase_def List.map_filter_simps)

lemma phases_append: "phases (a @ b) = phases a @ phases b"
  by (simp add: phases_def List.map_filter_def)

lemma phases_error: "phases (Stderr (CHR ''E'' # s) # l) = phases l"
  by (simp add: phases_def notice_phase_def List.map_filter_simps)

lemma phases_score_lines: "phases (score_lines ps w i cs) = []"
  by (induction cs arbitrary: i) (simp_all add: Let_def phases_Cons_simps)

lemma phases_game_over: "phases (game_over st f) = []"
  by (cases f) (simp_all add: game_over_def Let_def phases_Cons_simps phases_score_lines)

lemma phases_progress:
  "(phases (fst (progress st ph)) = [] \<and> snd (progress st ph) = ph)
 \<or> (\<exists>p. phases (fst (progress st ph)) = [p] \<and> snd (progress st ph) = Some p \<and> ph \<noteq> Some p)"
  by (simp add: progress_def Let_def phases_def notice_phase_def List.map_filter_simps)

text \<open>
  The invariant of the loop: the phases announced from any pass on never repeat, and the
  first of them is not the phase that was shown last.
\<close>

lemma distinct_adj_phases:
  "distinct_adj (phases (fst (wait_loop g f d ph es)))
 \<and> (phases (fst (wait_loop g f d ph es)) \<noteq> [] \<longrightarrow>
      Some (hd (phases (fst (wait_loop g f d ph es)))) \<noteq> ph)"
proof (induction es arbitrary: ph)
  case Nil
  then show ?case by (simp add: phases_Cons_simps)
next
  case (Cons x es)
  obtain r now where x: "x = (r, now)" by (cases x)
  show ?case
  proof (cases r)
    case (Failed code detail)
    then show ?thesis
      using x Cons.IH [of ph]
      by (simp add: wait_loop_failed phases_Cons_simps phases_error)
  next
    case (Raised name)
    then show ?thesis
      using x by (simp add: phases_Cons_simps)
  next
    case (Fetched st)
    let ?n = "phases (fst (progress st ph))"
    let ?ph = "snd (progress st ph)"
    from phases_progress [of st ph] show ?thesis
    proof
      assume a: "?n = [] \<and> ?ph = ph"
      then show ?thesis
        using x Fetched Cons.IH [of ph]
        by (simp add: wait_loop_fetched phases_Cons_simps phases_append phases_error
              phases_game_over)
    next
      assume "\<exists>p. ?n = [p] \<and> ?ph = Some p \<and> ph \<noteq> Some p"
      then obtain p where p: "?n = [p]" "?ph = Some p" "ph \<noteq> Some p" by blast
      from Cons.IH [of "Some p"] have
        r: "distinct_adj (phases (fst (wait_loop g f d (Some p) es)))"
           "phases (fst (wait_loop g f d (Some p) es)) \<noteq> [] \<longrightarrow>
              hd (phases (fst (wait_loop g f d (Some p) es))) \<noteq> p"
        by simp_all
      then have "distinct_adj (p # phases (fst (wait_loop g f d (Some p) es)))"
        by (cases "phases (fst (wait_loop g f d (Some p) es))") auto
      then show ?thesis
        using x Fetched p
        by (auto simp: wait_loop_fetched phases_Cons_simps phases_append phases_error
              phases_game_over)
    qed
  qed
qed

text \<open>
  Claim C5. Whatever the server answers, two consecutive progress notices of a wait never
  announce the same phase. The test is on the phase label alone: while the phase \<^verbatim>\<open>turn\<close>
  is shown, a started status prints nothing and leaves the label, whatever its current
  color; while the phase \<^verbatim>\<open>lobby\<close> is shown, a status that is not started prints nothing.
  So a further notice needs a change between the two phases.
\<close>

theorem notices_never_repeat:
  "distinct_adj (phases (fst (cmd_wait_loop g f d es)))
 \<and> (get_truthy st ''started'' \<longrightarrow> progress st (Some ''turn'') = ([], Some ''turn''))
 \<and> (\<not> get_truthy st ''started'' \<longrightarrow> progress st (Some ''lobby'') = ([], Some ''lobby''))"
  using distinct_adj_phases [of g f d None es]
  by (simp add: cmd_wait_loop_def progress_def Let_def)

text \<open>
  Two polls in the lobby, a failed request, then two polls of the started game with
  different current colors: one notice for the lobby and one for the turn.
\<close>

theorem notices_never_repeat_witness:
  "distinct_adj (phases (fst (cmd_wait_loop ''g1'' None 100
     [(Fetched [''players_joined'' \<mapsto> JInt 1, ''num_players'' \<mapsto> JInt 2], 1),
      (Fetched [''players_joined'' \<mapsto> JInt 2, ''num_players'' \<mapsto> JInt 2], 2),
      (Failed 502 (JStr ''bad gateway''), 3),
      (Fetched [''started'' \<mapsto> JBool True, ''current_color'' \<mapsto> JStr ''BLUE''], 4),
      (Fetched [''started'' \<mapsto> JBool True, ''current_color'' \<mapsto> JStr ''WHITE''], 5)])))
 \<and> fst (cmd_wait_loop ''g1'' None 100
     [(Fetched [''players_joined'' \<mapsto> JInt 1, ''num_players'' \<mapsto> JInt 2], 1),
      (Fetched [''players_joined'' \<mapsto> JInt 2, ''num_players'' \<mapsto> JInt 2], 2),
      (Failed 502 (JStr ''bad gateway''), 3),
      (Fetched [''started'' \<mapsto> JBool True, ''current_color'' \<mapsto> JStr ''BLUE''], 4),
      (Fetched [''started'' \<mapsto> JBool True, ''current_color'' \<mapsto> JStr ''WHITE''], 5)])
   = [Fetch, Stderr ''Waiting for players (1/2)...'', Sleep, Fetch, Sleep, Fetch, Sleep,
      Fetch, Stderr ''Waiting for your turn (current: BLUE)...'', Sleep, Fetch, Sleep]
 \<and> progress [''started'' \<mapsto> JBool True, ''current_color'' \<mapsto> JStr ''WHITE''] (Some ''turn'')
   = ([], Some ''turn'')"
  using notices_never_repeat
    [of "''g1''" None 100
        "[(Fetched [''players_joined'' \<mapsto> JInt 1, ''num_players'' \<mapsto> JInt 2], 1),
          (Fetched [''players_joined'' \<mapsto> JInt 2, ''num_players'' \<mapsto> JInt 2], 2),
          (Failed 502 (JStr ''bad gateway''), 3),
          (Fetched [''started'' \<mapsto> JBool True, ''current_color'' \<mapsto> JStr ''BLUE''], 4),
          (Fetched [''started'' \<mapsto> JBool True, ''current_color'' \<mapsto> JStr ''WHITE''], 5)]"
        "[''started'' \<mapsto> JBool True, ''current_color'' \<mapsto> JStr ''WHITE'']"]
  by (simp add: cmd_wait_loop_def wait_loop_failed wait_loop_fetched get_truthy_def
        progress_def dict_get_def str_int_def digits10.simps digit_char_def)

subsection \<open>Action grouping\<close>

lemma set_add_str:
  "set_add (JStr c) (map JStr cs) = map JStr (if c \<in> set cs then cs else cs @ [c])"
  by (auto simp: set_add_def list_ex_iff key_eq_def)

lemma split_all_others:
  assumes "mc \<noteq> []"
  shows "\<forall>a\<in>set actions. \<exists>c t rest. a = JList (JStr c # t # rest) \<and> c \<noteq> [] \<and> c \<noteq> mc \<Longrightarrow>
     distinct cs \<Longrightarrow>
     \<exists>cs'. split_actions (Some mc) actions [] (map JStr cs) = Inr ([], map JStr cs')
         \<and> set cs' = set cs \<union> set (map other_color actions) \<and> distinct cs'"
proof (induction actions arbitrary: cs)
  case Nil
  then have "split_actions (Some mc) [] [] (map JStr cs) = Inr ([], map JStr cs)
      \<and> set cs = set cs \<union> set (map other_color []) \<and> distinct cs"
    by simp
  then show ?case by blast
next
  case (Cons a actions)
  from Cons.prems(1) obtain c t rest where a: "a = JList (JStr c # t # rest)" "c \<noteq> []" "c \<noteq> mc"
    by auto
  let ?cs = "if c \<in> set cs then cs else cs @ [c]"
  have d: "distinct ?cs" using Cons.prems(2) by simp
  from Cons.prems(1) have "\<forall>a\<in>set actions. \<exists>c t rest. a = JList (JStr c # t # rest) \<and> c \<noteq> [] \<and> c \<noteq> mc"
    by simp
  from Cons.IH [OF this d] obtain cs' where
    r: "split_actions (Some mc) actions [] (map JStr ?cs) = Inr ([], map JStr cs')"
       "set cs' = set ?cs \<union> set (map other_color actions)" "distinct cs'"
    by blast
  have "split_actions (Some mc) (a # actions) [] (map JStr cs) = Inr ([], map JStr cs')"
    using a assms r(1) by (simp add: is_other_def set_add_str)
  moreover have "set cs' = set cs \<union> set (map other_color (a # actions))"
    using r(2) a(1) by auto
  ultimately show ?case using r(3) by blast
qed

lemma sort_distinct_same_set:
  fixes xs ys :: "string list"
  assumes "distinct xs" "distinct ys" "set xs = set ys"
  shows "sort xs = sort ys"
proof (rule sorted_distinct_set_unique)
  show "sorted (sort xs)" "sorted (sort ys)" by simp_all
  show "distinct (sort xs)" "distinct (sort ys)" using assms by simp_all
  show "set (sort xs) = set (sort ys)" using assms by simp
qed

lemma sorted_join_strs: "sorted_join (map JStr cs) = Inr (join '', '' (sort cs))"
proof -
  have "map (\<lambda>c. the (str_val c)) (map JStr cs) = cs" by (induction cs) simp_all
  moreover have "list_all (\<lambda>c. str_val c \<noteq> None) (map JStr cs)" by (induction cs) simp_all
  ultimately show ?thesis by (simp add: sorted_join_def)
qed

text \<open>
  Claim C9. For a self color and a list of legal actions that is not empty and in which
  every action carries another color (no action is left for the agent), \<^verbatim>\<open>_print_actions\<close>
  prints, under the section header, the single line \<^verbatim>\<open>(none for you -- waiting on: ...)\<close>
  with the distinct other colors in sorted order, and no action group.
\<close>

theorem waiting_on_others:
  assumes "mc \<noteq> []" "actions \<noteq> []"
    and "\<forall>a\<in>set actions. \<exists>c t rest. a = JList (JStr c # t # rest) \<and> c \<noteq> [] \<and> c \<noteq> mc"
  shows "print_actions actions (Some mc) =
     Inr [section_line ''Available Actions'',
          ''  (none for you -- waiting on: ''
            @ join '', '' (sort (remdups (map other_color actions))) @ '')'']"
proof -
  from split_all_others [OF assms(1) assms(3), of "[]"] obtain cs' where
    r: "split_actions (Some mc) actions [] [] = Inr ([], map JStr cs')"
       "set cs' = set (map other_color actions)" "distinct cs'"
    by auto
  from r(2) assms(2) have ne: "cs' \<noteq> []" by (cases actions) auto
  have "sort cs' = sort (remdups (map other_color actions))"
    using r(2,3) by (intro sort_distinct_same_set) simp_all
  then show ?thesis
    using r(1) ne by (simp add: print_actions_def sorted_join_strs)
qed

text \<open>
  Three actions of two other players, one of them listed twice: each color appears once,
  in alphabetical order.
\<close>

theorem waiting_on_others_witness:
  "print_actions [JList [JStr ''WHITE'', JStr ''RELEASE_CATCH'', JNull],
                  JList [JStr ''BLUE'', JStr ''BUILD_TIDE_POOL'', JInt 12],
                  JList [JStr ''WHITE'', JStr ''RELEASE_CATCH'', JList [JInt 1]]] (Some ''RED'')
   = Inr [section_line ''Available Actions'', ''  (none for you -- waiting on: BLUE, WHITE)'']"
  using waiting_on_others
    [of "''RED''" "[JList [JStr ''WHITE'', JStr ''RELEASE_CATCH'', JNull],
                  JList [JStr ''BLUE'', JStr ''BUILD_TIDE_POOL'', JInt 12],
                  JList [JStr ''WHITE'', JStr ''RELEASE_CATCH'', JList [JInt 1]]]"]
  by (simp add: less_eq_char_def less_char_def)

lemma not_foreign_step:
  "\<not> foreign my_color a \<Longrightarrow>
   split_actions my_color (a # todo) ma oc = split_actions my_color todo (ma @ [a]) oc"
  by (auto split: json.splits list.splits)

lemma foreign_step:
  "foreign my_color a \<Longrightarrow> str_color a \<Longrightarrow>
   split_actions my_color (a # todo) ma (map JStr cs) =
     split_actions my_color todo ma
       (map JStr (if other_color a \<in> set cs then cs else cs @ [other_color a]))"
proof -
  assume f: "foreign my_color a" and s: "str_color a"
  from s obtain c rest where a: "a = JList (JStr c # rest)"
    by (cases a rule: str_color.cases) auto
  with f obtain t rest' where r: "rest = t # rest'" by (cases rest) auto
  with a f have "is_other my_color (JStr c)" by simp
  with a r show ?thesis by (simp add: set_add_str)
qed

lemma split_general:
  "\<forall>a\<in>set actions. foreign my_color a \<longrightarrow> str_color a \<Longrightarrow> distinct cs \<Longrightarrow>
   \<exists>cs'. split_actions my_color actions ma (map JStr cs) =
           Inr (ma @ filter (\<lambda>a. \<not> foreign my_color a) actions, map JStr cs')
        \<and> set cs' = set cs \<union> set (map other_color (filter (foreign my_color) actions))
        \<and> distinct cs'"
proof (induction actions arbitrary: ma cs)
  case Nil
  then have "split_actions my_color [] ma (map JStr cs) =
           Inr (ma @ filter (\<lambda>a. \<not> foreign my_color a) [], map JStr cs)
        \<and> set cs = set cs \<union> set (map other_color (filter (foreign my_color) []))
        \<and> distinct cs"
    by simp
  then show ?case by blast
next
  case (Cons a actions)
  from Cons.prems(1) have h: "\<forall>a\<in>set actions. foreign my_color a \<longrightarrow> str_color a" by simp
  show ?case
  proof (cases "foreign my_color a")
    case True
    with Cons.prems(1) have s: "str_color a" by simp
    let ?cs = "if other_color a \<in> set cs then cs else cs @ [other_color a]"
    have d: "distinct ?cs" using Cons.prems(2) by simp
    from Cons.IH [OF h d, of ma] obtain cs' where
      r: "split_actions my_color actions ma (map JStr ?cs) =
            Inr (ma @ filter (\<lambda>a. \<not> foreign my_color a) actions, map JStr cs')"
         "set cs' = set ?cs \<union> set (map other_color (filter (foreign my_color) actions))"
         "distinct cs'"
      by blast
    have "split_actions my_color (a # actions) ma (map JStr cs) =
            Inr (ma @ filter (\<lambda>a. \<not> foreign my_color a) (a # actions), map JStr cs')"
      using True r(1) foreign_step [OF True s] by simp
    moreover have "set cs' = set cs \<union> set (map other_color (filter (foreign my_color) (a # actions)))"
      using True r(2) by auto
    ultimately show ?thesis using r(3) by blast
  next
    case False
    from Cons.IH [OF h Cons.prems(2), of "ma @ [a]"] obtain cs' where
      r: "split_actions my_color actions (ma @ [a]) (map JStr cs) =
            Inr ((ma @ [a]) @ filter (\<lambda>a. \<not> foreign my_color a) actions, map JStr cs')"
         "set cs' = set cs \<union> set (map other_color (filter (foreign my_color) actions))"
         "distinct cs'"
      by blast
    have "split_actions my_color (a # actions) ma (map JStr cs) =
            Inr (ma @ filter (\<lambda>a. \<not> foreign my_color a) (a # actions), map JStr cs')"
      using False r(1) not_foreign_step [OF False] by simp
    moreover have "set cs' = set cs \<union> set (map other_color (filter (foreign my_color) (a # actions)))"
      using False r(2) by simp
    ultimately show ?thesis using r(3) by blast
  qed
qed

lemma first_seen_snoc:
  "first_seen (xs @ [x]) = (if x \<in> set xs then first_seen xs else first_seen xs @ [x])"
  by (simp add: first_seen_def)

lemma first_seen_set: "set (first_seen xs) = set xs" "distinct (first_seen xs)"
  by (simp_all add: first_seen_def)

lemma group_add_keyed:
  "distinct ks \<Longrightarrow>
   group_add (JStr t) v (map (\<lambda>k. (JStr k, f k)) ks) =
     map (\<lambda>k. (JStr k, if k = t then f k @ [v] else f k)) ks
     @ (if t \<in> set ks then [] else [(JStr t, [v])])"
  by (induction ks) (auto simp: key_eq_def)

lemma payloads_snoc:
  "payloads k (pre @ [a]) = payloads k pre @ (if action_type a = JStr k then [third a] else [])"
  by (simp add: payloads_def)

lemma payloads_absent:
  "k \<notin> set (map type_name pre) \<Longrightarrow> payloads k pre = []"
  by (auto simp: payloads_def type_name_def filter_empty_conv image_iff split: json.splits)

lemma groups_of_snoc:
  assumes "action_type a = JStr t"
  shows "group_add (JStr t) (third a) (groups_of pre) = groups_of (pre @ [a])"
proof -
  let ?ks = "first_seen (map type_name pre)"
  have tn: "type_name a = t" using assms by (simp add: type_name_def)
  have "group_add (JStr t) (third a) (groups_of pre) =
     map (\<lambda>k. (JStr k, if k = t then payloads k pre @ [third a] else payloads k pre)) ?ks
     @ (if t \<in> set ?ks then [] else [(JStr t, [third a])])"
    unfolding groups_of_def by (rule group_add_keyed) (simp add: first_seen_set)
  also have "\<dots> = groups_of (pre @ [a])"
  proof (cases "t \<in> set (map type_name pre)")
    case True
    then show ?thesis
      using assms tn
      by (simp add: groups_of_def first_seen_snoc first_seen_set payloads_snoc)
  next
    case False
    then have "payloads t pre = []" by (rule payloads_absent)
    with False show ?thesis
      using assms tn
      by (simp add: groups_of_def first_seen_snoc first_seen_set payloads_snoc)
  qed
  finally show ?thesis .
qed

lemma group_actions_groups:
  "\<forall>a\<in>set xs. \<exists>t. action_type a = JStr t \<Longrightarrow>
   group_actions xs (groups_of pre) = Inr (groups_of (pre @ xs))"
proof (induction xs arbitrary: pre)
  case Nil
  then show ?case by simp
next
  case (Cons a xs)
  from Cons.prems obtain t where t: "action_type a = JStr t" by auto
  from Cons.prems have "\<forall>a\<in>set xs. \<exists>t. action_type a = JStr t" by simp
  from Cons.IH [OF this, of "pre @ [a]"] t groups_of_snoc [OF t, of pre]
  show ?case by (simp add: Let_def)
qed

lemma print_group_lines: "print_group (JStr t) vals = Inr (group_lines t vals)"
  by (simp add: print_group_def group_lines_def action_hint_def count_line_def Let_def comp_def
        split: option.splits)

lemma print_groups_keyed:
  "print_groups (map (\<lambda>k. (JStr k, f k)) ks) = Inr (concat (map (\<lambda>k. group_lines k (f k)) ks))"
  by (induction ks) (simp_all add: print_group_lines)

text \<open>
  Claim C3, as the code has it. A group whose action type has a static usage hint is
  printed with the count, the hint and one payload per line even when the joined rendering
  fits the width: the single payload \<^verbatim>\<open>[1,0,0,1,0]\<close> of \<^verbatim>\<open>RELEASE_CATCH\<close> takes 28
  characters of the 120.
\<close>

theorem hinted_group_counterexample:
  "length (join '' | '' (map json_dumps [JList [JInt 1, JInt 0, JInt 0, JInt 1, JInt 0]]))
     + length ''RELEASE_CATCH'' + 4 \<le> 120
 \<and> print_actions [JList [JStr ''RED'', JStr ''RELEASE_CATCH'',
                     JList [JInt 1, JInt 0, JInt 0, JInt 1, JInt 0]]] (Some ''RED'')
   = Inr [section_line ''Available Actions'',
          ''  RELEASE_CATCH (1 options):'',
          ''    ('' @ the (action_hint (JStr ''RELEASE_CATCH'')) @ '')'',
          ''    [1,0,0,1,0]'']"
  by (simp add: print_actions_def is_other_def key_eq_def print_group_def action_hint_def
        ACTION_HINTS_def str_int_def digits10.simps digit_char_def)

text \<open>
  Claim C3, amended. Take any list of legal actions in which the colors of the other
  players and the action types of the self-actions are strings, and which is not the
  waiting case (no self-action, but actions of other colors). After the header,
  \<^verbatim>\<open>_print_actions\<close> prints one block for every group of self-actions, the groups in the
  order in which their types first occur, and then the note on the other players, if any.
  In the block of a group whose payloads are not all absent, each payload is rendered by
  \<^verbatim>\<open>json.dumps\<close> with the compact separators. When the action type has no static usage
  hint, the payloads are shown on one line separated by \<^verbatim>\<open>" | "\<close> exactly when the length of
  the joined rendering plus the length of the type name plus 4 is at most 120, and
  otherwise as the count and one payload per line. When the action type is one of the four
  with a hint, the count, the hint and one payload per line are shown, whatever the width.
  A group whose payloads are all absent is the bare type, followed by its hint if it has
  one.
\<close>

theorem group_rendering:
  assumes "\<forall>a\<in>set actions. foreign my_color a \<longrightarrow> str_color a"
    and "\<forall>a\<in>set actions. \<not> foreign my_color a \<longrightarrow> (\<exists>t. action_type a = JStr t)"
    and "filter (\<lambda>a. \<not> foreign my_color a) actions \<noteq> [] \<or> filter (foreign my_color) actions = []"
  shows "print_actions actions my_color =
     Inr (section_line ''Available Actions''
          # concat (map (\<lambda>t. group_lines t
                               (payloads t (filter (\<lambda>a. \<not> foreign my_color a) actions)))
                     (first_seen (map type_name (filter (\<lambda>a. \<not> foreign my_color a) actions))))
          @ (if filter (foreign my_color) actions = [] then []
             else [CHR 0x0A # ''  (other players still need to act: ''
                     @ join '', '' (sort (remdups (map other_color
                                                    (filter (foreign my_color) actions))))
                     @ '')'']))"
proof -
  let ?self = "filter (\<lambda>a. \<not> foreign my_color a) actions"
  let ?others = "filter (foreign my_color) actions"
  from split_general [OF assms(1), of "[]" "[]"] obtain cs' where
    r: "split_actions my_color actions [] [] = Inr (?self, map JStr cs')"
       "set cs' = set (map other_color ?others)" "distinct cs'"
    by auto
  have e: "(cs' = []) = (?others = [])" using r(2) by (cases ?others; cases cs') auto
  have s: "sort cs' = sort (remdups (map other_color ?others))"
    using r(2,3) by (intro sort_distinct_same_set) simp_all
  have "\<forall>a\<in>set ?self. \<exists>t. action_type a = JStr t" using assms(2) by simp
  from group_actions_groups [OF this, of "[]"]
  have g: "group_actions ?self [] = Inr (groups_of ?self)"
    by (simp add: groups_of_def first_seen_def)
  have p: "print_groups (groups_of ?self) =
     Inr (concat (map (\<lambda>t. group_lines t (payloads t ?self)) (first_seen (map type_name ?self))))"
    unfolding groups_of_def by (rule print_groups_keyed)
  show ?thesis
    using assms(3) r(1) e s g p
    by (auto simp: print_actions_def sorted_join_strs)
qed


text \<open>
  Own actions of three types mixed with an action of another player: two building sites
  on one line, the single payload of a hinted type below the count and the hint, a bare
  type without payload, and the note on the other player.
\<close>

theorem group_rendering_witness:
  "print_actions
     [JList [JStr ''RED'', JStr ''BUILD_TIDE_POOL'', JInt 12],
      JList [JStr ''BLUE'', JStr ''RELEASE_CATCH'', JNull],
      JList [JStr ''RED'', JStr ''PLAY_BOUNTIFUL_HARVEST'', JList [JStr ''KELP'', JStr ''CORAL'']],
      JList [JStr ''RED'', JStr ''BUILD_TIDE_POOL'', JInt 31],
      JList [JNull, JStr ''END_TIDE'']] (Some ''RED'')
   = Inr [section_line ''Available Actions'',
          ''  BUILD_TIDE_POOL: 12 | 31'',
          ''  PLAY_BOUNTIFUL_HARVEST (1 options):'',
          ''    ('' @ the (action_hint (JStr ''PLAY_BOUNTIFUL_HARVEST'')) @ '')'',
          [CHR '' '', CHR '' '', CHR '' '', CHR '' '', CHR ''['', CHR 0x22] @ ''KELP''
            @ [CHR 0x22, CHR '','', CHR 0x22] @ ''CORAL'' @ [CHR 0x22, CHR '']''],
          ''  END_TIDE'',
          CHR 0x0A # ''  (other players still need to act: BLUE)'']"
  using group_rendering
    [of "[JList [JStr ''RED'', JStr ''BUILD_TIDE_POOL'', JInt 12],
          JList [JStr ''BLUE'', JStr ''RELEASE_CATCH'', JNull],
          JList [JStr ''RED'', JStr ''PLAY_BOUNTIFUL_HARVEST'', JList [JStr ''KELP'', JStr ''CORAL'']],
          JList [JStr ''RED'', JStr ''BUILD_TIDE_POOL'', JInt 31],
          JList [JNull, JStr ''END_TIDE'']]" "Some ''RED''"]
  by (simp add: is_other_def first_seen_def type_name_def payloads_def group_lines_def
        action_hint_def ACTION_HINTS_def count_line_def str_int_def digits10.simps
        digit_char_def json_quote_def json_escape_char_def)

end
